theory Spec2Isabelle
  imports Complex_Main
begin

section \<open>Data model (types/index.ts)\<close>

text \<open>
  JavaScript numbers are modelled as real numbers: the arithmetic of the engine is read
  as exact arithmetic, so rounding, infinities and NaN are outside the model. A theorem
  that rests on a division of the source by a yield strength states it to be nonzero.
  Optional interface fields (\<^verbatim>\<open>currentStress?: number\<close>) are option values, \<open>None\<close> being
  \<^verbatim>\<open>undefined\<close>. Field names carry a prefix where two interfaces share a name.
\<close>

type_synonym Triplet = "real \<times> real \<times> real"

datatype NodeType = Joint | Support | Connection

record StructuralNode =
  node_id :: string
  node_position :: Triplet
  node_type :: NodeType
  node_material :: "string option"
  node_mass :: "real option"
  node_constraints :: "string list option"

datatype ProfileType = IPE | HEA | HEB | HEM | Custom

record StructuralBeam =
  beam_id :: string
  nodeIds :: "string \<times> string"
  profileType :: ProfileType
  beam_length :: real
  beam_width :: real
  beam_height :: real
  thickness :: "real option"
  beam_material :: string
  beam_elasticModulus :: real
  beam_yieldStrength :: real
  beam_mass :: real
  currentStress :: "real option"
  damageLevel :: "real option"
  isBroken :: "bool option"
  criticalStress :: "real option"
  fatigueFactor :: "real option"

record FallingElement =
  elementId :: string
  originalPosition :: Triplet
  currentPosition :: Triplet
  velocity :: Triplet
  fe_mass :: real
  isOnGround :: bool
  impactEnergy :: real
  hasCollided :: bool

record CollisionEvent =
  ce_elementId :: string
  collidedWith :: string
  impactForce :: real
  ce_timestamp :: real
  ce_position :: Triplet

record CollapseSimulation =
  fallingElements :: "FallingElement list"
  collisionEvents :: "CollisionEvent list"
  groundLevel :: real
  gravity :: Triplet
  airResistance :: real
  groundFriction :: real
  isActive :: bool
  sim_timestamp :: real

section \<open>The host environment\<close>

text \<open>
  \<^verbatim>\<open>Math.random()\<close> and \<^verbatim>\<open>Date.now()\<close> are the two reads of the host. Each is a
  sequence of values: \<open>rnd 0\<close> is what the next call returns, \<open>rnd 1\<close> the call after
  it, and a function that made \<open>k\<close> calls hands \<open>advance k rnd\<close> to what runs next.
\<close>

type_synonym RandomSource = "nat \<Rightarrow> real"
type_synonym Clock = "nat \<Rightarrow> real"

definition advance :: "nat \<Rightarrow> (nat \<Rightarrow> real) \<Rightarrow> (nat \<Rightarrow> real)" where
  "advance k src = (\<lambda>n. src (k + n))"

section \<open>Collapse physics (services/collapsePhysics.ts)\<close>

definition GRAVITY :: Triplet where
  "GRAVITY = (0, -15, 0)"

definition AIR_RESISTANCE :: real where
  "AIR_RESISTANCE = 0.005"

definition GROUND_FRICTION :: real where
  "GROUND_FRICTION = 0.6"

definition GROUND_LEVEL :: real where
  "GROUND_LEVEL = -2.25"

definition TIME_STEP :: real where
  "TIME_STEP = 0.016"

text \<open>
  \<^verbatim>\<open>updateFallingElement\<close>, in the order of the source: gravity, air resistance,
  position, ground contact. \<open>newVelocity\<close> and \<open>newPosition\<close> are the source's local
  arrays of these names as they stand just before the ground test, and \<open>speedOf\<close> is the
  square root of the sum of squares that the source calls \<^verbatim>\<open>speed\<close>.
\<close>

definition speedOf :: "Triplet \<Rightarrow> real" where
  "speedOf v = (case v of (v0, v1, v2) \<Rightarrow> sqrt (v0\<^sup>2 + v1\<^sup>2 + v2\<^sup>2))"

definition newVelocity :: "FallingElement \<Rightarrow> CollapseSimulation \<Rightarrow> Triplet" where
  "newVelocity element simulation =
     (case velocity element of (v0, v1, v2) \<Rightarrow>
      case gravity simulation of (g0, g1, g2) \<Rightarrow>
        let n0 = v0 + g0 * TIME_STEP;
            n1 = v1 + g1 * TIME_STEP;
            n2 = v2 + g2 * TIME_STEP;
            airResistanceForce = airResistance simulation * fe_mass element;
            speed = speedOf (n0, n1, n2)
        in if speed > 0
           then (n0 - (n0 / speed) * airResistanceForce * TIME_STEP,
                 n1 - (n1 / speed) * airResistanceForce * TIME_STEP,
                 n2 - (n2 / speed) * airResistanceForce * TIME_STEP)
           else (n0, n1, n2))"

definition newPosition :: "FallingElement \<Rightarrow> CollapseSimulation \<Rightarrow> Triplet" where
  "newPosition element simulation =
     (case currentPosition element of (p0, p1, p2) \<Rightarrow>
      case newVelocity element simulation of (n0, n1, n2) \<Rightarrow>
        (p0 + n0 * TIME_STEP, p1 + n1 * TIME_STEP, p2 + n2 * TIME_STEP))"

definition updateFallingElement :: "FallingElement \<Rightarrow> CollapseSimulation \<Rightarrow> FallingElement" where
  "updateFallingElement element simulation =
     (case newVelocity element simulation of (n0, n1, n2) \<Rightarrow>
      case newPosition element simulation of (q0, q1, q2) \<Rightarrow>
        if q1 \<le> groundLevel simulation \<and> \<not> isOnGround element
        then element\<lparr>currentPosition := (q0, groundLevel simulation, q2),
                     velocity := (n0 * (1 - groundFriction simulation), 0,
                                  n2 * (1 - groundFriction simulation)),
                     isOnGround := True,
                     impactEnergy := 0.5 * fe_mass element * n1\<^sup>2\<rparr>
        else element\<lparr>currentPosition := (q0, q1, q2),
                     velocity := (n0, n1, n2),
                     isOnGround := isOnGround element,
                     impactEnergy := impactEnergy element\<rparr>)"

text \<open>
  \<^verbatim>\<open>checkCollisions(element, allElements)\<close>: \<open>element\<close> is the body as already
  updated in this step, \<open>allElements\<close> the bodies as they stood at the start of the step.
  Bodies are told apart by \<open>elementId\<close>. Each event reads the clock once.
\<close>

definition collisionRadius :: real where
  "collisionRadius = 0.5"

definition distance :: "Triplet \<Rightarrow> Triplet \<Rightarrow> real" where
  "distance a b =
     (case a of (a0, a1, a2) \<Rightarrow> case b of (b0, b1, b2) \<Rightarrow>
        sqrt ((a0 - b0)\<^sup>2 + (a1 - b1)\<^sup>2 + (a2 - b2)\<^sup>2))"

definition calculateImpactForce :: "FallingElement \<Rightarrow> FallingElement \<Rightarrow> real" where
  "calculateImpactForce element1 element2 =
     (case velocity element1 of (u0, u1, u2) \<Rightarrow>
      case velocity element2 of (w0, w1, w2) \<Rightarrow>
        let relativeSpeed = sqrt ((u0 - w0)\<^sup>2 + (u1 - w1)\<^sup>2 + (u2 - w2)\<^sup>2)
        in 0.5 * (fe_mass element1 + fe_mass element2) * relativeSpeed\<^sup>2)"

fun checkCollisions :: "Clock \<Rightarrow> FallingElement \<Rightarrow> FallingElement list \<Rightarrow> CollisionEvent list" where
  "checkCollisions clock element [] = []"
| "checkCollisions clock element (otherElement # rest) =
     (if elementId element = elementId otherElement
      then checkCollisions clock element rest
      else if distance (currentPosition element) (currentPosition otherElement) < collisionRadius
              \<and> \<not> hasCollided element
      then \<lparr>ce_elementId = elementId element,
            collidedWith = elementId otherElement,
            impactForce = calculateImpactForce element otherElement,
            ce_timestamp = clock 0,
            ce_position = currentPosition element\<rparr>
           # checkCollisions (advance 1 clock) element rest
      else checkCollisions clock element rest)"

text \<open>
  \<^verbatim>\<open>checkImpactDamage\<close> returns copies of the beams it would break; it changes nothing.
  A beam counts as broken when \<^verbatim>\<open>beam.isBroken\<close> is truthy, that is \<open>Some True\<close>.
\<close>

definition impactThreshold :: real where
  "impactThreshold = 1000"

definition beamCenter :: "StructuralNode \<Rightarrow> StructuralNode \<Rightarrow> Triplet" where
  "beamCenter nodeA nodeB =
     (case node_position nodeA of (a0, a1, a2) \<Rightarrow>
      case node_position nodeB of (b0, b1, b2) \<Rightarrow>
        ((a0 + b0) / 2, (a1 + b1) / 2, (a2 + b2) / 2))"

definition findNode :: "StructuralNode list \<Rightarrow> string \<Rightarrow> StructuralNode option" where
  "findNode ns i = find (\<lambda>n. node_id n = i) ns"

fun impactScan :: "FallingElement \<Rightarrow> StructuralNode list \<Rightarrow> StructuralBeam list \<Rightarrow> StructuralBeam list" where
  "impactScan element ns [] = []"
| "impactScan element ns (beam # rest) =
     (if isBroken beam = Some True then impactScan element ns rest
      else case (findNode ns (fst (nodeIds beam)), findNode ns (snd (nodeIds beam))) of
         (Some nodeA, Some nodeB) \<Rightarrow>
           if distance (currentPosition element) (beamCenter nodeA nodeB) < 3
              \<and> impactEnergy element > impactThreshold * 2
           then beam\<lparr>isBroken := Some True, damageLevel := Some 1\<rparr> # impactScan element ns rest
           else impactScan element ns rest
       | _ \<Rightarrow> impactScan element ns rest)"

definition checkImpactDamage ::
  "FallingElement \<Rightarrow> StructuralBeam list \<Rightarrow> StructuralNode list \<Rightarrow> StructuralBeam list" where
  "checkImpactDamage element bs ns =
     (if impactEnergy element > impactThreshold then impactScan element ns bs else [])"

text \<open>
  \<^verbatim>\<open>addNewFallingElements\<close> walks the collision events, not the result of
  \<^verbatim>\<open>checkImpactDamage\<close>: an event whose \<open>elementId\<close> names a beam that is not broken
  gives a new body. Each new body draws three random numbers.
\<close>

fun addNewFallingElements ::
  "RandomSource \<Rightarrow> CollisionEvent list \<Rightarrow> StructuralBeam list \<Rightarrow> StructuralNode list
     \<Rightarrow> FallingElement list" where
  "addNewFallingElements rnd [] bs ns = []"
| "addNewFallingElements rnd (event # rest) bs ns =
     (case find (\<lambda>b. beam_id b = ce_elementId event) bs of
        None \<Rightarrow> addNewFallingElements rnd rest bs ns
      | Some beam \<Rightarrow>
          if isBroken beam = Some True then addNewFallingElements rnd rest bs ns
          else (case (findNode ns (fst (nodeIds beam)), findNode ns (snd (nodeIds beam))) of
             (Some nodeA, Some nodeB) \<Rightarrow>
               \<lparr>elementId = beam_id beam,
                originalPosition = beamCenter nodeA nodeB,
                currentPosition = beamCenter nodeA nodeB,
                velocity = ((rnd 0 - 0.5) * 6, rnd 1 * 3, (rnd 2 - 0.5) * 6),
                fe_mass = beam_mass beam * beam_length beam,
                isOnGround = False,
                impactEnergy = 0,
                hasCollided = False\<rparr>
               # addNewFallingElements (advance 3 rnd) rest bs ns
           | _ \<Rightarrow> addNewFallingElements rnd rest bs ns))"

text \<open>
  The body of the \<^verbatim>\<open>forEach\<close> of \<^verbatim>\<open>updateCollapseSimulation\<close>: the updated bodies and
  the events of this step, in order. The value of \<^verbatim>\<open>checkImpactDamage\<close> is computed and
  dropped, as in the source. \<open>stillMoving\<close> is the test the source applies to every body
  to decide \<open>isActive\<close>; the final timestamp is the reading of the clock after those of
  the events.
\<close>

fun updateElements ::
  "Clock \<Rightarrow> CollapseSimulation \<Rightarrow> StructuralBeam list \<Rightarrow> StructuralNode list
     \<Rightarrow> FallingElement list \<Rightarrow> FallingElement list \<times> CollisionEvent list" where
  "updateElements clock simulation bs ns [] = ([], [])"
| "updateElements clock simulation bs ns (element # rest) =
     (let updatedElement = updateFallingElement element simulation;
          collisions = checkCollisions clock updatedElement (fallingElements simulation);
          dropped = checkImpactDamage updatedElement bs ns
      in case updateElements (advance (length collisions) clock) simulation bs ns rest of
           (updated, events) \<Rightarrow> (updatedElement # updated, collisions @ events))"

definition stillMoving :: "FallingElement \<Rightarrow> bool" where
  "stillMoving element =
     (\<not> isOnGround element \<or>
      (case velocity element of (v0, v1, v2) \<Rightarrow> \<bar>v0\<bar> > 0.1 \<or> \<bar>v1\<bar> > 0.1 \<or> \<bar>v2\<bar> > 0.1))"

definition updateCollapseSimulation ::
  "Clock \<Rightarrow> RandomSource \<Rightarrow> CollapseSimulation \<Rightarrow> StructuralBeam list \<Rightarrow> StructuralNode list
     \<Rightarrow> CollapseSimulation" where
  "updateCollapseSimulation clock rnd simulation bs ns =
     (if \<not> isActive simulation then simulation
      else case updateElements clock simulation bs ns (fallingElements simulation) of
        (updated, events) \<Rightarrow>
          let newCollisionEvents = collisionEvents simulation @ events;
              newFallingElements = addNewFallingElements rnd newCollisionEvents bs ns;
              updatedFallingElements = updated @ newFallingElements
          in simulation\<lparr>fallingElements := updatedFallingElements,
                         collisionEvents := newCollisionEvents,
                         isActive := list_ex stillMoving updatedFallingElements,
                         sim_timestamp := clock (length events)\<rparr>)"

section \<open>Model, materials and analysis results (types/index.ts, constants/materials.ts)\<close>

record MaterialProperties =
  mat_name :: string
  density :: real
  elasticModulus :: real
  yieldStrength :: real
  ultimateStrength :: real
  poissonRatio :: real

datatype FoundationType = Dado | Pilar | Pedestal | Zapata

record StructuralFoundation =
  found_id :: string
  found_type :: FoundationType
  found_position :: Triplet
  dimensions :: Triplet
  found_material :: string
  soilResistance :: real

record SimulationConfig =
  cfg_gravity :: Triplet
  timeStep :: real
  iterations :: real
  damping :: real
  allowSleep :: bool

datatype EarthquakeType = Horizontal | Vertical | Rotational

record EarthquakeConfig =
  intensity :: real
  frequency :: real
  duration :: real
  direction :: Triplet
  eq_type :: EarthquakeType

datatype ToolMode = ViewTool | AnalyzeTool | SimulateTool | DesignTool

datatype ViewMode = Wireframe | Solid | StressView | DeformationView

record UIConfig =
  toolMode :: ToolMode
  viewMode :: ViewMode
  showGrid :: bool
  showLabels :: bool
  showForces :: bool
  showStresses :: bool

record StructuralModel =
  nodes :: "StructuralNode list"
  beams :: "StructuralBeam list"
  foundations :: "StructuralFoundation list"
  materials :: "string \<rightharpoonup> MaterialProperties"
  model_simulationConfig :: SimulationConfig
  model_uiConfig :: UIConfig

text \<open>
  The texts the service produces are fixed templates; each template is a constructor and
  its arguments are the values the template interpolates.
  \<^item> \<open>LowSafetyFactor\<close>: the safety factor is low, consider reinforcement;
  \<^item> \<open>ReinforceCritical ids\<close>: reinforce the critical elements, the ids joined by commas;
  \<^item> \<open>EvaluateLoadDistribution\<close>: evaluate the load distribution in the main elements;
  \<^item> \<open>MeetsBasicCriteria\<close>: the structure meets the basic safety criteria;
  \<^item> \<open>NoNodes\<close>, \<open>NoBeams\<close>: the structure must have at least one node, one beam;
  \<^item> \<open>InvalidNodes id\<close>: beam \<open>id\<close> has invalid nodes;
  \<^item> \<open>InvalidMaterial id material\<close>: invalid material for beam \<open>id\<close>.
\<close>

datatype Recommendation =
  LowSafetyFactor | ReinforceCritical "string list" | EvaluateLoadDistribution | MeetsBasicCriteria

datatype ValidationMessage =
  NoNodes | NoBeams | InvalidNodes string | InvalidMaterial string string

record StructuralAnalysis =
  maxDisplacement :: real
  maxStress :: real
  safetyFactor :: real
  criticalElements :: "string list"
  recommendations :: "Recommendation list"

text \<open>
  A \<^verbatim>\<open>Record<string, T>\<close> filled by assignments is an association list in insertion
  order: assigning to a key that is present replaces its value in place.
\<close>

fun assign :: "string \<Rightarrow> 'v \<Rightarrow> (string \<times> 'v) list \<Rightarrow> (string \<times> 'v) list" where
  "assign k v [] = [(k, v)]"
| "assign k v ((k', v') # rest) =
     (if k' = k then (k, v) # rest else (k', v') # assign k v rest)"

record SimulationResult =
  sr_timestamp :: real
  nodePositions :: "(string \<times> Triplet) list"
  beamStresses :: "(string \<times> real) list"
  foundationReactions :: "(string \<times> Triplet) list"
  analysis :: StructuralAnalysis

record ValidationResult =
  isValid :: bool
  errors :: "ValidationMessage list"

text \<open>The material table; the display names are written without their accents.\<close>

definition MATERIALS :: "string \<rightharpoonup> MaterialProperties" where
  "MATERIALS =
     [''steel_S235'' \<mapsto> \<lparr>mat_name = ''Acero S235'', density = 7850, elasticModulus = 210000,
                          yieldStrength = 235, ultimateStrength = 360, poissonRatio = 0.3\<rparr>,
      ''steel_S355'' \<mapsto> \<lparr>mat_name = ''Acero S355'', density = 7850, elasticModulus = 210000,
                          yieldStrength = 355, ultimateStrength = 470, poissonRatio = 0.3\<rparr>,
      ''concrete_C25'' \<mapsto> \<lparr>mat_name = ''Hormigon C25'', density = 2400, elasticModulus = 30000,
                            yieldStrength = 25, ultimateStrength = 30, poissonRatio = 0.2\<rparr>,
      ''concrete_C30'' \<mapsto> \<lparr>mat_name = ''Hormigon C30'', density = 2400, elasticModulus = 33000,
                            yieldStrength = 30, ultimateStrength = 37, poissonRatio = 0.2\<rparr>,
      ''aluminum_6061'' \<mapsto> \<lparr>mat_name = ''Aluminio 6061'', density = 2700, elasticModulus = 69000,
                             yieldStrength = 240, ultimateStrength = 310, poissonRatio = 0.33\<rparr>]"

section \<open>Structural analysis (services/structuralAnalysis.ts)\<close>

text \<open>
  \<^verbatim>\<open>calculateMaxDisplacement\<close> draws one random number and ignores its arguments;
  \<^verbatim>\<open>calculateMaxStress\<close> draws one for each beam whose material is in the table.
\<close>

definition calculateMaxDisplacement ::
  "RandomSource \<Rightarrow> StructuralBeam list \<Rightarrow> StructuralNode list \<Rightarrow> real" where
  "calculateMaxDisplacement rnd bs ns = rnd 0 * 50 + 10"

fun calculateMaxStressFrom :: "RandomSource \<Rightarrow> real \<Rightarrow> StructuralBeam list \<Rightarrow> real" where
  "calculateMaxStressFrom rnd maxStress' [] = maxStress'"
| "calculateMaxStressFrom rnd maxStress' (beam # rest) =
     (case MATERIALS (beam_material beam) of
        None \<Rightarrow> calculateMaxStressFrom rnd maxStress' rest
      | Some material \<Rightarrow>
          calculateMaxStressFrom (advance 1 rnd)
            (max maxStress' (rnd 0 * yieldStrength material * 0.8 + yieldStrength material * 0.2))
            rest)"

definition calculateMaxStress :: "RandomSource \<Rightarrow> StructuralBeam list \<Rightarrow> real" where
  "calculateMaxStress rnd bs = calculateMaxStressFrom rnd 0 bs"

definition calculateSafetyFactor :: "StructuralBeam list \<Rightarrow> real \<Rightarrow> real" where
  "calculateSafetyFactor bs maxStress' =
     (case foldl (\<lambda>(totalYieldStrength, totalAppliedStress) beam.
                    case MATERIALS (beam_material beam) of
                      None \<Rightarrow> (totalYieldStrength, totalAppliedStress)
                    | Some material \<Rightarrow>
                        (totalYieldStrength + yieldStrength material * beam_length beam,
                         totalAppliedStress + maxStress' * beam_length beam))
                 (0, 0) bs of
        (totalYieldStrength, totalAppliedStress) \<Rightarrow>
          if totalAppliedStress = 0 then 2 else totalYieldStrength / totalAppliedStress)"

definition identifyCriticalElements :: "StructuralBeam list \<Rightarrow> real \<Rightarrow> string list" where
  "identifyCriticalElements bs maxStress' =
     take 3 (map beam_id
       (filter (\<lambda>beam. case MATERIALS (beam_material beam) of
                          None \<Rightarrow> False
                        | Some material \<Rightarrow> maxStress' / yieldStrength material > 0.8) bs))"

definition generateRecommendations ::
  "StructuralBeam list \<Rightarrow> real \<Rightarrow> string list \<Rightarrow> Recommendation list" where
  "generateRecommendations bs safetyFactor' criticalElements' =
     (let recs = (if safetyFactor' < 1.5 then [LowSafetyFactor] else [])
               @ (if length criticalElements' > 0 then [ReinforceCritical criticalElements'] else [])
               @ (if length bs > 10 then [EvaluateLoadDistribution] else [])
      in if length recs = 0 then [MeetsBasicCriteria] else recs)"

definition analyzeStructure :: "RandomSource \<Rightarrow> StructuralModel \<Rightarrow> StructuralAnalysis" where
  "analyzeStructure rnd model =
     (let maxDisplacement' = calculateMaxDisplacement rnd (beams model) (nodes model);
          maxStress' = calculateMaxStress (advance 1 rnd) (beams model);
          safetyFactor' = calculateSafetyFactor (beams model) maxStress';
          criticalElements' = identifyCriticalElements (beams model) maxStress';
          recommendations' = generateRecommendations (beams model) safetyFactor' criticalElements'
      in \<lparr>maxDisplacement = maxDisplacement', maxStress = maxStress',
          safetyFactor = safetyFactor', criticalElements = criticalElements',
          recommendations = recommendations'\<rparr>)"

definition calculateBeamStress :: "StructuralBeam \<Rightarrow> real \<Rightarrow> real" where
  "calculateBeamStress beam earthquakeIntensity =
     (case MATERIALS (beam_material beam) of
        None \<Rightarrow> 0
      | Some material \<Rightarrow>
          let baseStress = yieldStrength material * 0.3;
              earthquakeFactor = earthquakeIntensity / 12
          in baseStress + yieldStrength material * 0.5 * earthquakeFactor)"

fun foundationReactionsFrom ::
  "RandomSource \<Rightarrow> (string \<times> Triplet) list \<Rightarrow> StructuralFoundation list \<Rightarrow> (string \<times> Triplet) list" where
  "foundationReactionsFrom rnd reactions [] = reactions"
| "foundationReactionsFrom rnd reactions (foundation # rest) =
     foundationReactionsFrom (advance 3 rnd)
       (assign (found_id foundation) (rnd 0 * 100 + 50, rnd 1 * 100 + 50, rnd 2 * 200 + 100) reactions)
       rest"

definition simulateEarthquake ::
  "Clock \<Rightarrow> RandomSource \<Rightarrow> StructuralModel \<Rightarrow> EarthquakeConfig \<Rightarrow> SimulationResult" where
  "simulateEarthquake clock rnd model earthquakeConfig' =
     (let timestamp = clock 0;
          displacementX = sin (timestamp * frequency earthquakeConfig' * 0.001) * intensity earthquakeConfig' * 0.01;
          displacementY = cos (timestamp * frequency earthquakeConfig' * 0.001) * intensity earthquakeConfig' * 0.005;
          displacementZ = sin (timestamp * frequency earthquakeConfig' * 0.001 * 1.5) * intensity earthquakeConfig' * 0.01
      in \<lparr>sr_timestamp = timestamp,
          nodePositions =
            foldl (\<lambda>positions node.
                     case node_position node of (b0, b1, b2) \<Rightarrow>
                       assign (node_id node) (b0 + displacementX, b1 + displacementY, b2 + displacementZ) positions)
                  [] (nodes model),
          beamStresses =
            foldl (\<lambda>stresses beam.
                     assign (beam_id beam) (calculateBeamStress beam (intensity earthquakeConfig')) stresses)
                  [] (beams model),
          foundationReactions = foundationReactionsFrom rnd [] (foundations model),
          analysis = analyzeStructure (advance (3 * length (foundations model)) rnd) model\<rparr>)"

definition validateStructure :: "StructuralModel \<Rightarrow> ValidationResult" where
  "validateStructure model =
     (let errors' =
            (if length (nodes model) = 0 then [NoNodes] else [])
          @ (if length (beams model) = 0 then [NoBeams] else [])
          @ concat (map (\<lambda>beam.
                 if findNode (nodes model) (fst (nodeIds beam)) = None
                    \<or> findNode (nodes model) (snd (nodeIds beam)) = None
                 then [InvalidNodes (beam_id beam)] else []) (beams model))
          @ concat (map (\<lambda>beam.
                 if MATERIALS (beam_material beam) = None
                 then [InvalidMaterial (beam_id beam) (beam_material beam)] else []) (beams model))
      in \<lparr>isValid = (length errors' = 0), errors = errors'\<rparr>)"

text \<open>
  \<^verbatim>\<open>initializeCollapseSimulation\<close>: one falling body for each broken beam whose two nodes
  resolve, three random draws for each, and one reading of the clock.
\<close>

fun initialFallingElements ::
  "RandomSource \<Rightarrow> StructuralBeam list \<Rightarrow> StructuralNode list \<Rightarrow> FallingElement list" where
  "initialFallingElements rnd [] ns = []"
| "initialFallingElements rnd (beam # rest) ns =
     (if isBroken beam = Some True
      then case (findNode ns (fst (nodeIds beam)), findNode ns (snd (nodeIds beam))) of
         (Some nodeA, Some nodeB) \<Rightarrow>
           \<lparr>elementId = beam_id beam,
            originalPosition = beamCenter nodeA nodeB,
            currentPosition = beamCenter nodeA nodeB,
            velocity = ((rnd 0 - 0.5) * 4, rnd 1 * 2, (rnd 2 - 0.5) * 4),
            fe_mass = beam_mass beam * beam_length beam,
            isOnGround = False,
            impactEnergy = 0,
            hasCollided = False\<rparr>
           # initialFallingElements (advance 3 rnd) rest ns
       | _ \<Rightarrow> initialFallingElements rnd rest ns
      else initialFallingElements rnd rest ns)"

definition initializeCollapseSimulation ::
  "Clock \<Rightarrow> RandomSource \<Rightarrow> StructuralBeam list \<Rightarrow> StructuralNode list \<Rightarrow> CollapseSimulation" where
  "initializeCollapseSimulation clock rnd bs ns =
     (let fallingElements' = initialFallingElements rnd bs ns
      in \<lparr>fallingElements = fallingElements',
          collisionEvents = [],
          groundLevel = GROUND_LEVEL,
          gravity = GRAVITY,
          airResistance = AIR_RESISTANCE,
          groundFriction = GROUND_FRICTION,
          isActive = (length fallingElements' > 0),
          sim_timestamp = clock 0\<rparr>)"

section \<open>The simulator store (hooks/useStructuralSimulator.ts)\<close>

record SimulatorState =
  structuralModel :: "StructuralModel option"
  simulationConfig :: SimulationConfig
  earthquakeConfig :: EarthquakeConfig
  uiConfig :: UIConfig
  isSimulating :: bool
  isAnalyzing :: bool
  analysisResult :: "StructuralAnalysis option"
  simulationResults :: "SimulationResult list"
  selectedElement :: "StructuralBeam option"
  collapseSimulation :: "CollapseSimulation option"

text \<open>
  The actions of the reducer. The payload of \<open>UPDATE_BEAM_PROPERTIES\<close>, a
  \<^verbatim>\<open>Partial<StructuralBeam>\<close>, is the function that spreads it over a beam
  (\<^verbatim>\<open>{...beam, ...updates}\<close>). \<open>INITIALIZE_COLLAPSE_SIMULATION\<close> reads the clock and the
  random source inside the reducer; they are arguments of the action here.
\<close>

datatype SimulatorAction =
    SET_SIMULATION_CONFIG SimulationConfig
  | SET_EARTHQUAKE_CONFIG EarthquakeConfig
  | SET_UI_CONFIG UIConfig
  | SET_IS_SIMULATING bool
  | SET_IS_ANALYZING bool
  | SET_ANALYSIS_RESULT "StructuralAnalysis option"
  | ADD_SIMULATION_RESULT SimulationResult
  | UPDATE_NODE_POSITION string Triplet
  | LOAD_STRUCTURAL_MODEL StructuralModel
  | UPDATE_BEAM_DAMAGE string real bool
  | RESET_STRUCTURAL_DAMAGE
  | SET_SELECTED_ELEMENT "StructuralBeam option"
  | UPDATE_BEAM_PROPERTIES string "StructuralBeam \<Rightarrow> StructuralBeam"
  | DELETE_ELEMENT string
  | INITIALIZE_COLLAPSE_SIMULATION Clock RandomSource
  | UPDATE_COLLAPSE_SIMULATION CollapseSimulation
  | RESET_COLLAPSE_SIMULATION

definition initialSimulationConfig :: SimulationConfig where
  "initialSimulationConfig =
     \<lparr>cfg_gravity = (0, -9.81, 0), timeStep = 0.016, iterations = 10, damping = 0.1,
      allowSleep = True\<rparr>"

definition initialEarthquakeConfig :: EarthquakeConfig where
  "initialEarthquakeConfig =
     \<lparr>intensity = 9, frequency = 20, duration = 20, direction = (1, 0, 0),
      eq_type = Horizontal\<rparr>"

definition initialUIConfig :: UIConfig where
  "initialUIConfig =
     \<lparr>toolMode = ViewTool, viewMode = Solid, showGrid = True, showLabels = True,
      showForces = False, showStresses = False\<rparr>"

definition initialState :: SimulatorState where
  "initialState =
     \<lparr>structuralModel = None,
      simulationConfig = initialSimulationConfig,
      earthquakeConfig = initialEarthquakeConfig,
      uiConfig = initialUIConfig,
      isSimulating = False,
      isAnalyzing = False,
      analysisResult = None,
      simulationResults = [],
      selectedElement = None,
      collapseSimulation = None\<rparr>"

definition resetBeam :: "StructuralBeam \<Rightarrow> StructuralBeam" where
  "resetBeam beam =
     beam\<lparr>damageLevel := Some 0, isBroken := Some False, currentStress := Some 0,
          fatigueFactor := Some 0\<rparr>"

fun simulatorReducer :: "SimulatorState \<Rightarrow> SimulatorAction \<Rightarrow> SimulatorState" where
  "simulatorReducer state (SET_SIMULATION_CONFIG payload) = state\<lparr>simulationConfig := payload\<rparr>"
| "simulatorReducer state (SET_EARTHQUAKE_CONFIG payload) = state\<lparr>earthquakeConfig := payload\<rparr>"
| "simulatorReducer state (SET_UI_CONFIG payload) = state\<lparr>uiConfig := payload\<rparr>"
| "simulatorReducer state (SET_IS_SIMULATING payload) = state\<lparr>isSimulating := payload\<rparr>"
| "simulatorReducer state (SET_IS_ANALYZING payload) = state\<lparr>isAnalyzing := payload\<rparr>"
| "simulatorReducer state (SET_ANALYSIS_RESULT payload) = state\<lparr>analysisResult := payload\<rparr>"
| "simulatorReducer state (ADD_SIMULATION_RESULT payload) =
     state\<lparr>simulationResults :=
       (let results = simulationResults state @ [payload]
        in drop (length results - 10) results)\<rparr>"
| "simulatorReducer state (UPDATE_NODE_POSITION nodeId position) =
     (case structuralModel state of
        None \<Rightarrow> state
      | Some model \<Rightarrow>
          state\<lparr>structuralModel := Some (model\<lparr>nodes :=
            map (\<lambda>node. if node_id node = nodeId then node\<lparr>node_position := position\<rparr> else node)
                (nodes model)\<rparr>)\<rparr>)"
| "simulatorReducer state (LOAD_STRUCTURAL_MODEL payload) = state\<lparr>structuralModel := Some payload\<rparr>"
| "simulatorReducer state (UPDATE_BEAM_DAMAGE beamId damageLevel' isBroken') =
     (case structuralModel state of
        None \<Rightarrow> state
      | Some model \<Rightarrow>
          state\<lparr>structuralModel := Some (model\<lparr>beams :=
            map (\<lambda>beam. if beam_id beam = beamId
                         then beam\<lparr>damageLevel := Some damageLevel', isBroken := Some isBroken'\<rparr>
                         else beam)
                (beams model)\<rparr>)\<rparr>)"
| "simulatorReducer state RESET_STRUCTURAL_DAMAGE =
     (case structuralModel state of
        None \<Rightarrow> state
      | Some model \<Rightarrow>
          state\<lparr>structuralModel := Some (model\<lparr>beams := map resetBeam (beams model)\<rparr>)\<rparr>)"
| "simulatorReducer state (SET_SELECTED_ELEMENT payload) = state\<lparr>selectedElement := payload\<rparr>"
| "simulatorReducer state (UPDATE_BEAM_PROPERTIES beamId updates) =
     (case structuralModel state of
        None \<Rightarrow> state
      | Some model \<Rightarrow>
          state\<lparr>structuralModel := Some (model\<lparr>beams :=
            map (\<lambda>beam. if beam_id beam = beamId then updates beam else beam) (beams model)\<rparr>)\<rparr>)"
| "simulatorReducer state (DELETE_ELEMENT elementId') =
     (case structuralModel state of
        None \<Rightarrow> state
      | Some model \<Rightarrow>
          state\<lparr>structuralModel := Some (model\<lparr>beams :=
                   filter (\<lambda>beam. beam_id beam \<noteq> elementId') (beams model)\<rparr>),
                 selectedElement :=
                   (case selectedElement state of
                      None \<Rightarrow> None
                    | Some selected \<Rightarrow>
                        if beam_id selected = elementId' then None else Some selected)\<rparr>)"
| "simulatorReducer state (INITIALIZE_COLLAPSE_SIMULATION clock rnd) =
     (case structuralModel state of
        None \<Rightarrow> state
      | Some model \<Rightarrow>
          state\<lparr>collapseSimulation :=
            Some (initializeCollapseSimulation clock rnd (beams model) (nodes model))\<rparr>)"
| "simulatorReducer state (UPDATE_COLLAPSE_SIMULATION payload) =
     state\<lparr>collapseSimulation := Some payload\<rparr>"
| "simulatorReducer state RESET_COLLAPSE_SIMULATION = state\<lparr>collapseSimulation := None\<rparr>"

text \<open>
  The \<^verbatim>\<open>analyzeStructure\<close> callback of the hook. The source runs the analysis two seconds
  later, from a timer, on the model it captured; the model runs it at once.
\<close>

definition hook_analyzeStructure :: "RandomSource \<Rightarrow> SimulatorState \<Rightarrow> SimulatorState" where
  "hook_analyzeStructure rnd state =
     (case structuralModel state of
        Some model \<Rightarrow>
          foldl simulatorReducer state
            [SET_IS_ANALYZING True,
             SET_ANALYSIS_RESULT (Some (analyzeStructure rnd model)),
             SET_IS_ANALYZING False]
      | None \<Rightarrow>
          foldl simulatorReducer state [SET_IS_ANALYZING True, SET_IS_ANALYZING False])"

text \<open>
  The earthquake effect of the hook, one firing of its interval. \<open>damageOf\<close> is
  \<^verbatim>\<open>beam.damageLevel || 0\<close>; \<open>newDamage\<close> and \<open>newIsBroken\<close> are the locals
  \<^verbatim>\<open>newDamage\<close> and \<^verbatim>\<open>isBroken\<close> of the loop body. The loop reads the model of the state
  it was created in and dispatches; the dispatched actions then run through the reducer in
  order. Ids such as \<^verbatim>\<open>BEAM_1\<close> are not array indices, so \<^verbatim>\<open>Object.entries\<close> lists them in
  insertion order.
\<close>

definition damageOf :: "StructuralBeam \<Rightarrow> real" where
  "damageOf beam = (case damageLevel beam of None \<Rightarrow> 0 | Some d \<Rightarrow> d)"

definition newDamage :: "StructuralBeam \<Rightarrow> MaterialProperties \<Rightarrow> real \<Rightarrow> real" where
  "newDamage beam material stress =
     (let stressRatio = stress / yieldStrength material;
          damageIncrement = max 0 (stressRatio - 0.3) * 0.15
      in min 1 (damageOf beam + damageIncrement))"

definition newIsBroken :: "StructuralBeam \<Rightarrow> MaterialProperties \<Rightarrow> real \<Rightarrow> bool" where
  "newIsBroken beam material stress =
     (newDamage beam material stress \<ge> 0.5 \<or> stress \<ge> yieldStrength material * 0.8)"

definition beamDamageActions :: "StructuralModel \<Rightarrow> string \<times> real \<Rightarrow> SimulatorAction list" where
  "beamDamageActions model entry =
     (case entry of (beamId, stress) \<Rightarrow>
       (case find (\<lambda>b. beam_id b = beamId) (beams model) of
          None \<Rightarrow> []
        | Some beam \<Rightarrow>
            if currentStress beam \<noteq> Some stress
            then (case materials model (beam_material beam) of
                    None \<Rightarrow> []
                  | Some material \<Rightarrow>
                      if \<bar>damageOf beam - newDamage beam material stress\<bar> > 0.01
                         \<or> isBroken beam \<noteq> Some (newIsBroken beam material stress)
                      then [UPDATE_BEAM_DAMAGE beamId (newDamage beam material stress)
                              (newIsBroken beam material stress),
                            UPDATE_BEAM_PROPERTIES beamId (\<lambda>b. b\<lparr>currentStress := Some stress\<rparr>)]
                      else [])
            else []))"

definition earthquakeTick :: "Clock \<Rightarrow> RandomSource \<Rightarrow> SimulatorState \<Rightarrow> SimulatorState" where
  "earthquakeTick clock rnd state =
     (if \<not> isSimulating state then state
      else case structuralModel state of
        None \<Rightarrow> state
      | Some model \<Rightarrow>
          let simulationResult = simulateEarthquake clock rnd model (earthquakeConfig state)
          in foldl simulatorReducer state
               (concat (map (beamDamageActions model) (beamStresses simulationResult))
                @ [ADD_SIMULATION_RESULT simulationResult]))"

text \<open>
  The collapse effect of the hook, one firing of its interval: it steps the simulation
  with the beams and nodes of the model and stores the result. Nothing else is stored.
\<close>

definition collapseTick :: "Clock \<Rightarrow> RandomSource \<Rightarrow> SimulatorState \<Rightarrow> SimulatorState" where
  "collapseTick clock rnd state =
     (case (collapseSimulation state, structuralModel state) of
        (Some simulation, Some model) \<Rightarrow>
          if isActive simulation
          then simulatorReducer state
                 (UPDATE_COLLAPSE_SIMULATION
                    (updateCollapseSimulation clock rnd simulation (beams model) (nodes model)))
          else state
      | _ \<Rightarrow> state)"

section \<open>Concrete inputs\<close>

text \<open>
  A clock that advances 16 ms per reading, a random source that always returns one half,
  and a collapse simulation with the constants of \<^verbatim>\<open>initializeCollapseSimulation\<close>
  around given bodies.
\<close>

definition clock0 :: Clock where
  "clock0 = (\<lambda>n. 1000 + 16 * real n)"

definition draws0 :: RandomSource where
  "draws0 = (\<lambda>n. 1 / 2)"

definition simulationOf :: "FallingElement list \<Rightarrow> CollapseSimulation" where
  "simulationOf els =
     \<lparr>fallingElements = els, collisionEvents = [], groundLevel = GROUND_LEVEL,
      gravity = GRAVITY, airResistance = AIR_RESISTANCE, groundFriction = GROUND_FRICTION,
      isActive = (length els > 0), sim_timestamp = 1000\<rparr>"

definition landingBody :: FallingElement where
  "landingBody =
     \<lparr>elementId = ''BEAM_1'', originalPosition = (0, 3, 0), currentPosition = (0, -2.24, 0),
      velocity = (0.6, -0.56, 0), fe_mass = 100, isOnGround = False, impactEnergy = 0,
      hasCollided = False\<rparr>"

definition settledSimulation :: CollapseSimulation where
  "settledSimulation =
     \<lparr>fallingElements =
        [\<lparr>elementId = ''BEAM_1'', originalPosition = (0, 3, 0), currentPosition = (1, -2.25, 0),
          velocity = (0, 0, 0), fe_mass = 100, isOnGround = True, impactEnergy = 1200,
          hasCollided = False\<rparr>],
      collisionEvents = [], groundLevel = GROUND_LEVEL,
      gravity = GRAVITY, airResistance = AIR_RESISTANCE, groundFriction = GROUND_FRICTION,
      isActive = False, sim_timestamp = 1000\<rparr>"

text \<open>
  A two-column portal cut out of the default model of the hook (its nodes, columns, first
  beam and first foundation, with their figures), and the same frame with damage on one
  column. \<open>otherProperties\<close> blanks the four fields a reset
  writes, so that two beams agree on it exactly when they agree on every other field.
\<close>

definition otherProperties :: "StructuralBeam \<Rightarrow> StructuralBeam" where
  "otherProperties beam =
     beam\<lparr>damageLevel := None, isBroken := None, currentStress := None, fatigueFactor := None\<rparr>"

definition beamOf ::
  "string \<Rightarrow> string \<times> string \<Rightarrow> ProfileType \<Rightarrow> real \<Rightarrow> real \<Rightarrow> real \<Rightarrow> real \<Rightarrow> real \<Rightarrow> StructuralBeam" where
  "beamOf i ends profile len w h e ys =
     \<lparr>beam_id = i, nodeIds = ends, profileType = profile, beam_length = len, beam_width = w,
      beam_height = h, thickness = None, beam_material = ''steel_S235'', beam_elasticModulus = e,
      beam_yieldStrength = ys, beam_mass = 8, currentStress = None, damageLevel = None,
      isBroken = None, criticalStress = None, fatigueFactor = None\<rparr>"

definition nodeOf ::
  "string \<Rightarrow> Triplet \<Rightarrow> NodeType \<Rightarrow> string \<Rightarrow> real option \<Rightarrow> StructuralNode" where
  "nodeOf i pos ty mat m =
     \<lparr>node_id = i, node_position = pos, node_type = ty, node_material = Some mat,
      node_mass = m, node_constraints = None\<rparr>"

definition portalNodes :: "StructuralNode list" where
  "portalNodes =
     [nodeOf ''FOUNDATION_1'' (-5, -0.75, -5) Support ''concrete_C25'' None,
      nodeOf ''FOUNDATION_2'' (5, -0.75, -5) Support ''concrete_C25'' None,
      nodeOf ''NODE_1'' (-5, 6.25, -5) Joint ''steel_S235'' (Some 100),
      nodeOf ''NODE_2'' (5, 6.25, -5) Joint ''steel_S235'' (Some 100)]"

definition portalBeams :: "StructuralBeam list" where
  "portalBeams =
     [beamOf ''COLUMN_1'' (''FOUNDATION_1'', ''NODE_1'') HEA 7 0.15 15 100000 80,
      beamOf ''COLUMN_2'' (''FOUNDATION_2'', ''NODE_2'') HEA 7 0.15 15 100000 80,
      beamOf ''BEAM_1'' (''NODE_1'', ''NODE_2'') IPE 10 0.05 80 80000 60]"

definition modelOf :: "StructuralNode list \<Rightarrow> StructuralBeam list \<Rightarrow> StructuralModel" where
  "modelOf ns bs =
     \<lparr>nodes = ns, beams = bs,
      foundations = [\<lparr>found_id = ''DADO_1'', found_type = Dado, found_position = (-5, -1.5, -5),
                      dimensions = (1.7, 1.5, 1.5), found_material = ''concrete_C25'',
                      soilResistance = 250\<rparr>],
      materials = MATERIALS,
      model_simulationConfig = initialSimulationConfig,
      model_uiConfig = initialUIConfig\<rparr>"


definition damagedBeams :: "StructuralBeam list" where
  "damagedBeams =
     [(beamOf ''COLUMN_1'' (''FOUNDATION_1'', ''NODE_1'') HEA 7 0.15 15 100000 80)
        \<lparr>currentStress := Some 188, damageLevel := Some 0.7, isBroken := Some True\<rparr>,
      beamOf ''BEAM_1'' (''NODE_1'', ''NODE_2'') IPE 10 0.05 80 80000 60]"

definition damagedState :: SimulatorState where
  "damagedState = initialState\<lparr>structuralModel := Some (modelOf portalNodes damagedBeams)\<rparr>"




text \<open>
  The portal frame with a fourth beam whose second node, \<^verbatim>\<open>NODE_9\<close>, is not a node of
  the model, and the store holding it.
\<close>

definition danglingModel :: StructuralModel where
  "danglingModel =
     modelOf portalNodes
       (portalBeams @ [beamOf ''BEAM_2'' (''NODE_2'', ''NODE_9'') IPE 10 0.05 80 80000 60])"

definition danglingState :: SimulatorState where
  "danglingState = initialState\<lparr>structuralModel := Some danglingModel\<rparr>"

text \<open>
  Three bodies of mass 100 that reach the ground in one step: one moving diagonally,
  one moving along x, one dropping straight down.
\<close>

definition slowDiagonalBody :: FallingElement where
  "slowDiagonalBody =
     \<lparr>elementId = ''BEAM_1'', originalPosition = (0, 3, 0), currentPosition = (0, -2.25, 0),
      velocity = (0.2, 0.14, 0.2), fe_mass = 100, isOnGround = False, impactEnergy = 0,
      hasCollided = False\<rparr>"

definition slowAxialBody :: FallingElement where
  "slowAxialBody =
     \<lparr>elementId = ''BEAM_1'', originalPosition = (0, 3, 0), currentPosition = (0, -2.25, 0),
      velocity = (0.27, -0.12, 0), fe_mass = 100, isOnGround = False, impactEnergy = 0,
      hasCollided = False\<rparr>"

definition droppingBody :: FallingElement where
  "droppingBody =
     \<lparr>elementId = ''BEAM_1'', originalPosition = (0, 3, 0), currentPosition = (0, -2.24, 0),
      velocity = (0, -0.76, 0), fe_mass = 100, isOnGround = False, impactEnergy = 0,
      hasCollided = False\<rparr>"

text \<open>
  An impact: the portal frame with a tie between the two foundation nodes, its beam
  \<^verbatim>\<open>BEAM_1\<close> broken and falling, one step above the ground at 15.76 m/s, right under
  the middle of the tie.
\<close>

definition tieBeam :: StructuralBeam where
  "tieBeam = beamOf ''TIE_1'' (''FOUNDATION_1'', ''FOUNDATION_2'') IPE 10 0.05 80 80000 60"

definition impactBeams :: "StructuralBeam list" where
  "impactBeams =
     [(beamOf ''BEAM_1'' (''NODE_1'', ''NODE_2'') IPE 10 0.05 80 80000 60)
        \<lparr>damageLevel := Some 1, isBroken := Some True\<rparr>,
      tieBeam]"

definition impactBody :: FallingElement where
  "impactBody =
     \<lparr>elementId = ''BEAM_1'', originalPosition = (0, 6.25, -5), currentPosition = (0, -2.1, -5),
      velocity = (0, -15.76, 0), fe_mass = 80, isOnGround = False, impactEnergy = 0,
      hasCollided = False\<rparr>"

definition impactState :: SimulatorState where
  "impactState =
     initialState\<lparr>structuralModel := Some (modelOf portalNodes impactBeams),
                  collapseSimulation := Some (simulationOf [impactBody])\<rparr>"

text \<open>Two falling bodies 30 cm apart.\<close>

definition bodyA :: FallingElement where
  "bodyA =
     \<lparr>elementId = ''BEAM_1'', originalPosition = (0, 6.25, 0), currentPosition = (0, 5, 0),
      velocity = (0, -0.76, 0), fe_mass = 80, isOnGround = False, impactEnergy = 0,
      hasCollided = False\<rparr>"

definition bodyB :: FallingElement where
  "bodyB =
     \<lparr>elementId = ''BEAM_2'', originalPosition = (0.3, 6.25, 0), currentPosition = (0.3, 5, 0),
      velocity = (0, -0.76, 0), fe_mass = 80, isOnGround = False, impactEnergy = 0,
      hasCollided = False\<rparr>"

section \<open>Runs of the earthquake interval\<close>


definition materialsOf :: "SimulatorState \<Rightarrow> string \<rightharpoonup> MaterialProperties" where
  "materialsOf state = (case structuralModel state of None \<Rightarrow> Map.empty | Some model \<Rightarrow> materials model)"

fun runTicks :: "(Clock \<times> RandomSource \<times> EarthquakeConfig) list \<Rightarrow> SimulatorState \<Rightarrow> SimulatorState" where
  "runTicks [] state = state"
| "runTicks ((clock, rnd, config) # rest) state =
     runTicks rest (earthquakeTick clock rnd (simulatorReducer state (SET_EARTHQUAKE_CONFIG config)))"




text \<open>
  What one dispatched action does to one beam, for the actions of the earthquake effect:
  the function the reducer maps over the beams.
\<close>

fun applyToBeam :: "SimulatorAction \<Rightarrow> StructuralBeam \<Rightarrow> StructuralBeam" where
  "applyToBeam (UPDATE_BEAM_DAMAGE beamId damageLevel' isBroken') beam =
     (if beam_id beam = beamId
      then beam\<lparr>damageLevel := Some damageLevel', isBroken := Some isBroken'\<rparr> else beam)"
| "applyToBeam (UPDATE_BEAM_PROPERTIES beamId updates) beam =
     (if beam_id beam = beamId then updates beam else beam)"
| "applyToBeam action beam = beam"

definition applyAll :: "SimulatorAction list \<Rightarrow> StructuralBeam \<Rightarrow> StructuralBeam" where
  "applyAll actions beam = foldl (\<lambda>b a. applyToBeam a b) beam actions"

fun beamwise :: "SimulatorAction \<Rightarrow> bool" where
  "beamwise (UPDATE_BEAM_DAMAGE beamId damageLevel' isBroken') = True"
| "beamwise (UPDATE_BEAM_PROPERTIES beamId updates) = True"
| "beamwise (ADD_SIMULATION_RESULT payload) = True"
| "beamwise action = False"





section \<open>Ground contact\<close>

text \<open>
  C6. A body that is not yet on the ground and whose integrated position has
  \<open>y \<le> groundLevel\<close> leaves the step with its height clamped to \<open>groundLevel\<close>, with
  \<open>impactEnergy = 0.5 \<cdot> mass \<cdot> v\<^sub>y\<^sup>2\<close> for the integrated vertical velocity \<open>v\<^sub>y\<close>, with both
  horizontal velocity components multiplied by \<open>1 - groundFriction\<close>, with vertical
  velocity zero and with the on-ground flag set.
\<close>

theorem updateFallingElement_ground_contact:
  assumes "newVelocity element simulation = (vx, vy, vz)"
    and "newPosition element simulation = (px, py, pz)"
    and "py \<le> groundLevel simulation"
    and "\<not> isOnGround element"
  shows "currentPosition (updateFallingElement element simulation) = (px, groundLevel simulation, pz)
       \<and> impactEnergy (updateFallingElement element simulation) = 0.5 * fe_mass element * vy\<^sup>2
       \<and> velocity (updateFallingElement element simulation) =
           (vx * (1 - groundFriction simulation), 0, vz * (1 - groundFriction simulation))
       \<and> isOnGround (updateFallingElement element simulation)"
  using assms by (simp add: updateFallingElement_def)

text \<open>
  The theorem at a body of mass 100 that is 1 cm above the ground and moving at
  \<open>(0.6, -0.56, 0)\<close>: it lands with vertical velocity \<open>-0.7936\<close>.
\<close>

theorem updateFallingElement_ground_contact_witness:
  "newVelocity landingBody (simulationOf [landingBody]) = (372/625, -496/625, 0)
   \<and> newPosition landingBody (simulationOf [landingBody]) = (744/78125, -175992/78125, 0)
   \<and> currentPosition (updateFallingElement landingBody (simulationOf [landingBody]))
       = (744/78125, -9/4, 0)
   \<and> impactEnergy (updateFallingElement landingBody (simulationOf [landingBody])) = 492032/15625
   \<and> velocity (updateFallingElement landingBody (simulationOf [landingBody])) = (744/3125, 0, 0)
   \<and> isOnGround (updateFallingElement landingBody (simulationOf [landingBody]))"
proof -
  have v: "newVelocity landingBody (simulationOf [landingBody]) = (372/625, -496/625, 0)"
    by (simp add: newVelocity_def speedOf_def landingBody_def simulationOf_def GRAVITY_def
        TIME_STEP_def AIR_RESISTANCE_def power2_eq_square)
  have p: "newPosition landingBody (simulationOf [landingBody]) = (744/78125, -175992/78125, 0)"
    by (simp add: newPosition_def v) (simp add: landingBody_def TIME_STEP_def)
  have g: "(-175992/78125 :: real) \<le> groundLevel (simulationOf [landingBody])"
    by (simp add: simulationOf_def GROUND_LEVEL_def)
  have n: "\<not> isOnGround landingBody"
    by (simp add: landingBody_def)
  from updateFallingElement_ground_contact [OF v p g n] v p
  show ?thesis
    by (simp add: simulationOf_def GROUND_LEVEL_def GROUND_FRICTION_def landingBody_def
        power2_eq_square)
qed

section \<open>Settled simulations\<close>

text \<open>
  C10. A collapse simulation whose \<open>isActive\<close> flag is false is returned as it is by
  \<^verbatim>\<open>updateCollapseSimulation\<close>, whatever the beams, the nodes, the clock and the random
  draws: same bodies, same event log, same timestamp. It stays so under any number of
  further steps.
\<close>

theorem updateCollapseSimulation_inactive_fixed_point:
  assumes "\<not> isActive simulation"
  shows "updateCollapseSimulation clock rnd simulation bs ns = simulation
       \<and> ((\<lambda>s. updateCollapseSimulation clock rnd s bs ns) ^^ n) simulation = simulation"
proof -
  have step: "updateCollapseSimulation clock rnd simulation bs ns = simulation"
    using assms by (simp add: updateCollapseSimulation_def)
  have "((\<lambda>s. updateCollapseSimulation clock rnd s bs ns) ^^ n) simulation = simulation"
    by (induction n) (simp_all add: step)
  with step show ?thesis by simp
qed

theorem updateCollapseSimulation_inactive_fixed_point_witness:
  "\<not> isActive settledSimulation
   \<and> updateCollapseSimulation clock0 draws0 settledSimulation [] [] = settledSimulation
   \<and> ((\<lambda>s. updateCollapseSimulation clock0 draws0 s [] []) ^^ 3) settledSimulation
       = settledSimulation"
proof -
  have h: "\<not> isActive settledSimulation"
    by (simp add: settledSimulation_def)
  from updateCollapseSimulation_inactive_fixed_point [OF h, of clock0 draws0 "[]" "[]" 3] h
  show ?thesis by simp
qed

section \<open>Reset\<close>

text \<open>
  C5. With a model loaded, \<open>RESET_STRUCTURAL_DAMAGE\<close> changes nothing of the state but
  the model, and nothing of the model but its beams: every beam has
  \<open>damageLevel = 0\<close>, \<open>fatigueFactor = 0\<close>, \<open>isBroken = false\<close> and \<open>currentStress = 0\<close>,
  the beams are the same in number, order and id, and every other field of every beam
  is as before.
\<close>

theorem reset_structural_damage:
  assumes "structuralModel state = Some model"
  shows "\<exists>model'. simulatorReducer state RESET_STRUCTURAL_DAMAGE = state\<lparr>structuralModel := Some model'\<rparr>
           \<and> (\<forall>beam \<in> set (beams model').
                 damageLevel beam = Some 0 \<and> fatigueFactor beam = Some 0
                 \<and> isBroken beam = Some False \<and> currentStress beam = Some 0)
           \<and> map otherProperties (beams model') = map otherProperties (beams model)
           \<and> map beam_id (beams model') = map beam_id (beams model)
           \<and> nodes model' = nodes model
           \<and> model'\<lparr>beams := []\<rparr> = model\<lparr>beams := []\<rparr>"
proof (intro exI conjI)
  show "simulatorReducer state RESET_STRUCTURAL_DAMAGE
        = state\<lparr>structuralModel := Some (model\<lparr>beams := map resetBeam (beams model)\<rparr>)\<rparr>"
    using assms by simp
qed (auto simp: resetBeam_def otherProperties_def)

theorem reset_structural_damage_witness:
  "structuralModel damagedState = Some (modelOf portalNodes damagedBeams)
   \<and> structuralModel (simulatorReducer damagedState RESET_STRUCTURAL_DAMAGE)
       = Some (modelOf portalNodes (map resetBeam damagedBeams))
   \<and> map damageLevel (map resetBeam damagedBeams) = [Some 0, Some 0]
   \<and> map isBroken (map resetBeam damagedBeams) = [Some False, Some False]
   \<and> map currentStress (map resetBeam damagedBeams) = [Some 0, Some 0]
   \<and> map fatigueFactor (map resetBeam damagedBeams) = [Some 0, Some 0]
   \<and> map beam_id (map resetBeam damagedBeams) = [''COLUMN_1'', ''BEAM_1'']"
proof -
  have h: "structuralModel damagedState = Some (modelOf portalNodes damagedBeams)"
    by (simp add: damagedState_def)
  from reset_structural_damage [OF h] h
  show ?thesis
    by (simp add: modelOf_def damagedBeams_def resetBeam_def beamOf_def)
qed

section \<open>Randomness in the analysis\<close>



lemma MATERIALS_steel: "MATERIALS ''steel_S235'' = Some \<lparr>mat_name = ''Acero S235'', density = 7850, elasticModulus = 210000,
                          yieldStrength = 235, ultimateStrength = 360, poissonRatio = 0.3\<rparr>"
  by (simp add: MATERIALS_def)



section \<open>Validation and analysis\<close>

text \<open>
  C2, as the code has it. \<^verbatim>\<open>validateStructure\<close> reports a beam with a node reference that
  does not resolve: the result is invalid and carries the message naming the beam.
  Nothing calls \<^verbatim>\<open>validateStructure\<close>, and the analysis does not look at node references:
  the \<^verbatim>\<open>analyzeStructure\<close> callback stores the analysis of such a model as of any other.
\<close>

theorem validateStructure_dangling_reference:
  assumes "beam \<in> set (beams model)"
    and "findNode (nodes model) (fst (nodeIds beam)) = None
         \<or> findNode (nodes model) (snd (nodeIds beam)) = None"
  shows "\<not> isValid (validateStructure model)
       \<and> InvalidNodes (beam_id beam) \<in> set (errors (validateStructure model))
       \<and> (structuralModel state = Some model
            \<longrightarrow> analysisResult (hook_analyzeStructure rnd state) = Some (analyzeStructure rnd model))"
proof -
  from assms have "InvalidNodes (beam_id beam) \<in> set (errors (validateStructure model))"
    by (auto simp: validateStructure_def Let_def)
  moreover from this have "\<not> isValid (validateStructure model)"
    by (auto simp: validateStructure_def Let_def)
  moreover have "structuralModel state = Some model
      \<longrightarrow> analysisResult (hook_analyzeStructure rnd state) = Some (analyzeStructure rnd model)"
    by (simp add: hook_analyzeStructure_def)
  ultimately show ?thesis by simp
qed

lemma danglingModel_analysis:
  "analyzeStructure draws0 danglingModel
   = \<lparr>maxDisplacement = 35, maxStress = 141, safetyFactor = 5 / 3, criticalElements = [],
      recommendations = [MeetsBasicCriteria]\<rparr>"
  by (simp add: analyzeStructure_def Let_def calculateMaxDisplacement_def calculateMaxStress_def
      calculateSafetyFactor_def identifyCriticalElements_def generateRecommendations_def
      draws0_def advance_def danglingModel_def modelOf_def portalBeams_def beamOf_def
      MATERIALS_steel)

lemma danglingModel_validation:
  "validateStructure danglingModel = \<lparr>isValid = False, errors = [InvalidNodes ''BEAM_2'']\<rparr>"
  by (simp add: validateStructure_def Let_def findNode_def danglingModel_def modelOf_def
      portalBeams_def portalNodes_def beamOf_def nodeOf_def MATERIALS_steel)

theorem validateStructure_dangling_reference_witness:
  "beamOf ''BEAM_2'' (''NODE_2'', ''NODE_9'') IPE 10 0.05 80 80000 60 \<in> set (beams danglingModel)
   \<and> findNode (nodes danglingModel) ''NODE_9'' = None
   \<and> \<not> isValid (validateStructure danglingModel)
   \<and> InvalidNodes ''BEAM_2'' \<in> set (errors (validateStructure danglingModel))
   \<and> structuralModel danglingState = Some danglingModel
   \<and> analysisResult (hook_analyzeStructure draws0 danglingState)
       = Some (analyzeStructure draws0 danglingModel)"
proof -
  have b: "beamOf ''BEAM_2'' (''NODE_2'', ''NODE_9'') IPE 10 0.05 80 80000 60
           \<in> set (beams danglingModel)"
    by (simp add: danglingModel_def modelOf_def)
  have n: "findNode (nodes danglingModel) ''NODE_9'' = None"
    by (simp add: findNode_def danglingModel_def modelOf_def portalNodes_def nodeOf_def)
  then have d: "findNode (nodes danglingModel)
                 (fst (nodeIds (beamOf ''BEAM_2'' (''NODE_2'', ''NODE_9'') IPE 10 0.05 80 80000 60))) = None
              \<or> findNode (nodes danglingModel)
                 (snd (nodeIds (beamOf ''BEAM_2'' (''NODE_2'', ''NODE_9'') IPE 10 0.05 80 80000 60))) = None"
    by (simp add: beamOf_def)
  have s: "structuralModel danglingState = Some danglingModel"
    by (simp add: danglingState_def)
  from validateStructure_dangling_reference [OF b d, of danglingState draws0] b n s
  show ?thesis by (simp add: beamOf_def)
qed

text \<open>
  C2, as stated, fails: the model with the dangling beam is invalid, and its analysis is
  produced all the same.
\<close>

theorem analysis_not_refused:
  "\<not> isValid (validateStructure danglingModel)
   \<and> analysisResult (hook_analyzeStructure draws0 danglingState)
       = Some \<lparr>maxDisplacement = 35, maxStress = 141, safetyFactor = 5 / 3,
               criticalElements = [], recommendations = [MeetsBasicCriteria]\<rparr>"
  by (simp add: danglingModel_validation hook_analyzeStructure_def danglingState_def
      danglingModel_analysis)

section \<open>The active flag\<close>

lemma speedOf_eval:
  "0 \<le> r \<Longrightarrow> v0\<^sup>2 + v1\<^sup>2 + v2\<^sup>2 = r\<^sup>2 \<Longrightarrow> speedOf (v0, v1, v2) = r"
  by (simp add: speedOf_def)

lemma speedOf_component_le:
  "\<bar>v0\<bar> \<le> speedOf (v0, v1, v2) \<and> \<bar>v1\<bar> \<le> speedOf (v0, v1, v2)
   \<and> \<bar>v2\<bar> \<le> speedOf (v0, v1, v2)"
  unfolding speedOf_def prod.case by (intro conjI; rule real_le_rsqrt; simp)

lemma simulationOf_fields:
  "fallingElements (simulationOf els) = els"
  "collisionEvents (simulationOf els) = []"
  "groundLevel (simulationOf els) = GROUND_LEVEL"
  "gravity (simulationOf els) = GRAVITY"
  "airResistance (simulationOf els) = AIR_RESISTANCE"
  "groundFriction (simulationOf els) = GROUND_FRICTION"
  "isActive (simulationOf els) = (length els > 0)"
  "sim_timestamp (simulationOf els) = 1000"
  by (simp_all add: simulationOf_def)

lemma slowDiagonal_velocity:
  "newVelocity slowDiagonalBody (simulationOf els) = (73/375, -73/750, 73/375)"
proof -
  have speed: "speedOf (1/5, - (1/10), 1/5) = 3/10"
    by (rule speedOf_eval) (simp_all add: power2_eq_square)
  show ?thesis
    by (simp add: newVelocity_def Let_def slowDiagonalBody_def simulationOf_fields GRAVITY_def
        TIME_STEP_def AIR_RESISTANCE_def speed)
qed

lemma slowDiagonal_update:
  "updateFallingElement slowDiagonalBody (simulationOf els)
   = slowDiagonalBody\<lparr>currentPosition := (146/46875, -9/4, 146/46875),
        velocity := (146/1875, 0, 146/1875), isOnGround := True, impactEnergy := 5329/11250\<rparr>"
  by (simp add: updateFallingElement_def newPosition_def slowDiagonal_velocity simulationOf_fields)
     (simp add: slowDiagonalBody_def simulationOf_fields TIME_STEP_def GROUND_LEVEL_def
        GROUND_FRICTION_def power2_eq_square)

lemma slowAxial_velocity:
  "newVelocity slowAxialBody (simulationOf els) = (663/2500, -221/625, 0)"
proof -
  have speed: "speedOf (27/100, - (9/25), 0) = 9/20"
    by (rule speedOf_eval) (simp_all add: power2_eq_square)
  show ?thesis
    by (simp add: newVelocity_def Let_def slowAxialBody_def simulationOf_fields GRAVITY_def
        TIME_STEP_def AIR_RESISTANCE_def speed)
qed

lemma slowAxial_update:
  "updateFallingElement slowAxialBody (simulationOf els)
   = slowAxialBody\<lparr>currentPosition := (663/156250, -9/4, 0),
        velocity := (663/6250, 0, 0), isOnGround := True, impactEnergy := 97682/15625\<rparr>"
  by (simp add: updateFallingElement_def newPosition_def slowAxial_velocity simulationOf_fields)
     (simp add: slowAxialBody_def simulationOf_fields TIME_STEP_def GROUND_LEVEL_def
        GROUND_FRICTION_def power2_eq_square)

lemma slowDiagonal_step:
  "updateCollapseSimulation clock0 draws0 (simulationOf [slowDiagonalBody]) [] []
   = (simulationOf [slowDiagonalBody])
       \<lparr>fallingElements := [slowDiagonalBody\<lparr>currentPosition := (146/46875, -9/4, 146/46875),
            velocity := (146/1875, 0, 146/1875), isOnGround := True, impactEnergy := 5329/11250\<rparr>],
        collisionEvents := [], isActive := False, sim_timestamp := 1000\<rparr>"
  by (simp add: updateCollapseSimulation_def Let_def slowDiagonal_update simulationOf_fields)
     (simp add: stillMoving_def clock0_def slowDiagonalBody_def)

lemma slowAxial_step:
  "updateCollapseSimulation clock0 draws0 (simulationOf [slowAxialBody]) [] []
   = (simulationOf [slowAxialBody])
       \<lparr>fallingElements := [slowAxialBody\<lparr>currentPosition := (663/156250, -9/4, 0),
        velocity := (663/6250, 0, 0), isOnGround := True, impactEnergy := 97682/15625\<rparr>],
        collisionEvents := [], isActive := True, sim_timestamp := 1000\<rparr>"
  by (simp add: updateCollapseSimulation_def Let_def slowAxial_update simulationOf_fields)
     (simp add: stillMoving_def clock0_def slowAxialBody_def)

text \<open>
  C9, as stated, fails. After one step the diagonal body lies on the ground with velocity
  \<open>(0.0779, 0, 0.0779)\<close>, whose length is above \<open>0.1\<close>, and the simulation is not
  active; the axial body lies on the ground with velocity \<open>(0.106, 0, 0)\<close>, which is
  shorter, and the simulation is active. No threshold on the speed gives the flag.
\<close>

theorem isActive_not_by_speed:
  "\<not> isActive (updateCollapseSimulation clock0 draws0 (simulationOf [slowDiagonalBody]) [] [])
   \<and> map isOnGround (fallingElements
         (updateCollapseSimulation clock0 draws0 (simulationOf [slowDiagonalBody]) [] [])) = [True]
   \<and> map velocity (fallingElements
         (updateCollapseSimulation clock0 draws0 (simulationOf [slowDiagonalBody]) [] []))
       = [(146/1875, 0, 146/1875)]
   \<and> speedOf (146/1875, 0, 146/1875) > 1/10
   \<and> isActive (updateCollapseSimulation clock0 draws0 (simulationOf [slowAxialBody]) [] [])
   \<and> map isOnGround (fallingElements
         (updateCollapseSimulation clock0 draws0 (simulationOf [slowAxialBody]) [] [])) = [True]
   \<and> map velocity (fallingElements
         (updateCollapseSimulation clock0 draws0 (simulationOf [slowAxialBody]) [] []))
       = [(663/6250, 0, 0)]
   \<and> speedOf (663/6250, 0, 0) < speedOf (146/1875, 0, 146/1875)"
proof -
  have "(1/10 :: real) < speedOf (146/1875, 0, 146/1875)"
    unfolding speedOf_def prod.case by (rule real_less_rsqrt) (simp add: power2_eq_square)
  moreover have "speedOf (663/6250, 0, 0) < speedOf (146/1875, 0, 146/1875)"
    by (simp add: speedOf_def power2_eq_square)
  ultimately show ?thesis
    by (simp add: slowDiagonal_step slowAxial_step)
qed

text \<open>
  C9, as the code has it. After a step of an active simulation, \<open>isActive\<close> holds exactly
  when some body of the result is not on the ground or has a velocity component whose
  absolute value is above \<open>0.1\<close>. In particular the flag is false once every body is on
  the ground with speed below \<open>0.1\<close>.
\<close>

theorem updateCollapseSimulation_isActive:
  assumes "isActive simulation"
  shows "(isActive (updateCollapseSimulation clock rnd simulation bs ns)
          \<longleftrightarrow> (\<exists>element \<in> set (fallingElements (updateCollapseSimulation clock rnd simulation bs ns)).
                 \<not> isOnGround element
                 \<or> \<bar>fst (velocity element)\<bar> > 0.1
                 \<or> \<bar>fst (snd (velocity element))\<bar> > 0.1
                 \<or> \<bar>snd (snd (velocity element))\<bar> > 0.1))
       \<and> ((\<forall>element \<in> set (fallingElements (updateCollapseSimulation clock rnd simulation bs ns)).
               isOnGround element \<and> speedOf (velocity element) < 0.1)
            \<longrightarrow> \<not> isActive (updateCollapseSimulation clock rnd simulation bs ns))"
proof -
  let ?r = "updateCollapseSimulation clock rnd simulation bs ns"
  have moving: "stillMoving e \<longleftrightarrow> (\<not> isOnGround e \<or> \<bar>fst (velocity e)\<bar> > 0.1
      \<or> \<bar>fst (snd (velocity e))\<bar> > 0.1 \<or> \<bar>snd (snd (velocity e))\<bar> > 0.1)" for e
    by (cases "velocity e") (simp add: stillMoving_def)
  have flag: "isActive ?r \<longleftrightarrow> (\<exists>e \<in> set (fallingElements ?r). stillMoving e)"
    using assms
    by (simp add: updateCollapseSimulation_def Let_def list_ex_iff split: prod.splits)
  have slow: "\<not> stillMoving e" if "isOnGround e" and "speedOf (velocity e) < 0.1" for e
  proof -
    obtain v0 v1 v2 where v: "velocity e = (v0, v1, v2)" by (cases "velocity e") auto
    from that(2) speedOf_component_le [of v0 v1 v2] v
    have "\<bar>v0\<bar> < 0.1" "\<bar>v1\<bar> < 0.1" "\<bar>v2\<bar> < 0.1" by simp_all
    with that(1) v show ?thesis by (simp add: stillMoving_def)
  qed
  from flag moving slow show ?thesis by blast
qed

lemma dropping_velocity:
  "newVelocity droppingBody (simulationOf els) = (0, -124/125, 0)"
proof -
  have speed: "speedOf (0, - 1, 0) = 1"
    by (rule speedOf_eval) simp_all
  show ?thesis
    by (simp add: newVelocity_def Let_def droppingBody_def simulationOf_fields GRAVITY_def
        TIME_STEP_def AIR_RESISTANCE_def speed)
qed

lemma dropping_update:
  "updateFallingElement droppingBody (simulationOf els)
   = droppingBody\<lparr>currentPosition := (0, -9/4, 0), velocity := (0, 0, 0),
        isOnGround := True, impactEnergy := 30752/625\<rparr>"
  by (simp add: updateFallingElement_def newPosition_def dropping_velocity simulationOf_fields)
     (simp add: droppingBody_def simulationOf_fields TIME_STEP_def GROUND_LEVEL_def
        GROUND_FRICTION_def power2_eq_square)

lemma dropping_step:
  "updateCollapseSimulation clock0 draws0 (simulationOf [droppingBody]) [] []
   = (simulationOf [droppingBody])
       \<lparr>fallingElements := [droppingBody\<lparr>currentPosition := (0, -9/4, 0), velocity := (0, 0, 0),
            isOnGround := True, impactEnergy := 30752/625\<rparr>],
        collisionEvents := [], isActive := False, sim_timestamp := 1000\<rparr>"
  by (simp add: updateCollapseSimulation_def Let_def dropping_update simulationOf_fields)
     (simp add: stillMoving_def clock0_def droppingBody_def)

theorem updateCollapseSimulation_isActive_witness:
  "isActive (simulationOf [droppingBody])
   \<and> \<not> isActive (updateCollapseSimulation clock0 draws0 (simulationOf [droppingBody]) [] [])
   \<and> map isOnGround (fallingElements
         (updateCollapseSimulation clock0 draws0 (simulationOf [droppingBody]) [] [])) = [True]
   \<and> map velocity (fallingElements
         (updateCollapseSimulation clock0 draws0 (simulationOf [droppingBody]) [] []))
       = [(0, 0, 0)]
   \<and> speedOf (0, 0, 0) < 1/10"
proof -
  have h: "isActive (simulationOf [droppingBody])"
    by (simp add: simulationOf_fields)
  from updateCollapseSimulation_isActive [OF h, of clock0 draws0 "[]" "[]"] h
  show ?thesis
    by (simp add: dropping_step speedOf_def)
qed

section \<open>Secondary breakage\<close>

lemma sqrt_less_iff: "0 < r \<Longrightarrow> sqrt x < r \<longleftrightarrow> x < r\<^sup>2"
  by (metis abs_of_pos real_sqrt_abs real_sqrt_less_iff)

lemma distance_less_iff:
  "0 < r \<Longrightarrow> distance (a0, a1, a2) (b0, b1, b2) < r
     \<longleftrightarrow> (a0 - b0)\<^sup>2 + (a1 - b1)\<^sup>2 + (a2 - b2)\<^sup>2 < r\<^sup>2"
  by (simp add: distance_def sqrt_less_iff)

lemma distance_less_radius:
  "distance (a0, a1, a2) (b0, b1, b2) < collisionRadius
     \<longleftrightarrow> (a0 - b0)\<^sup>2 + (a1 - b1)\<^sup>2 + (a2 - b2)\<^sup>2 < 1 / 4"
proof -
  have "0 < collisionRadius" by (simp add: collisionRadius_def)
  from distance_less_iff [OF this] show ?thesis
    by (simp add: collisionRadius_def power2_eq_square)
qed

lemma impact_velocity:
  "newVelocity impactBody (simulationOf els) = (0, -9996/625, 0)"
proof -
  have speed: "speedOf (0, - 16, 0) = 16"
    by (rule speedOf_eval) simp_all
  show ?thesis
    by (simp add: newVelocity_def Let_def impactBody_def simulationOf_fields GRAVITY_def
        TIME_STEP_def AIR_RESISTANCE_def speed)
qed

lemma impact_update:
  "updateFallingElement impactBody (simulationOf els)
   = impactBody\<lparr>currentPosition := (0, -9/4, -5), velocity := (0, 0, 0),
        isOnGround := True, impactEnergy := 799360128/78125\<rparr>"
  by (simp add: updateFallingElement_def newPosition_def impact_velocity simulationOf_fields)
     (simp add: impactBody_def simulationOf_fields TIME_STEP_def GROUND_LEVEL_def
        GROUND_FRICTION_def power2_eq_square)

lemma impact_scan:
  "checkImpactDamage
     (impactBody\<lparr>currentPosition := (0, -9/4, -5), velocity := (0, 0, 0),
        isOnGround := True, impactEnergy := 799360128/78125\<rparr>) impactBeams portalNodes
   = [tieBeam\<lparr>isBroken := Some True, damageLevel := Some 1\<rparr>]"
  by (simp add: checkImpactDamage_def impactThreshold_def impactBeams_def tieBeam_def beamOf_def
      portalNodes_def nodeOf_def findNode_def beamCenter_def impactBody_def distance_less_iff
      power2_eq_square)

lemma impact_step:
  "updateCollapseSimulation clock0 draws0 (simulationOf [impactBody]) impactBeams portalNodes
   = (simulationOf [impactBody])
       \<lparr>fallingElements := [impactBody\<lparr>currentPosition := (0, -9/4, -5), velocity := (0, 0, 0),
            isOnGround := True, impactEnergy := 799360128/78125\<rparr>],
        collisionEvents := [], isActive := False, sim_timestamp := 1000\<rparr>"
  by (simp add: updateCollapseSimulation_def Let_def impact_update simulationOf_fields)
     (simp add: stillMoving_def clock0_def impactBody_def)

text \<open>The collapse effect never writes the model, whatever the impact.\<close>

lemma collapseTick_keeps_model:
  "structuralModel (collapseTick clock rnd state) = structuralModel state"
  by (simp add: collapseTick_def split: option.splits)

text \<open>
  C7 against the code. The falling beam lands with 10232 J, more than twice the
  threshold, 1.5 m from the centroid of the intact tie. \<^verbatim>\<open>checkImpactDamage\<close> returns the
  tie as broken with damage 1, and \<^verbatim>\<open>updateCollapseSimulation\<close> drops that value: the
  step yields the one body it started with, no body for the tie, and the model in the
  store keeps the tie unbroken.
\<close>

theorem secondary_breakage_dropped:
  "checkImpactDamage (updateFallingElement impactBody (simulationOf [impactBody]))
       impactBeams portalNodes
     = [tieBeam\<lparr>isBroken := Some True, damageLevel := Some 1\<rparr>]
   \<and> map elementId (fallingElements
         (updateCollapseSimulation clock0 draws0 (simulationOf [impactBody]) impactBeams portalNodes))
       = [''BEAM_1'']
   \<and> structuralModel (collapseTick clock0 draws0 impactState)
       = Some (modelOf portalNodes impactBeams)
   \<and> map beam_id impactBeams = [''BEAM_1'', ''TIE_1'']
   \<and> map isBroken impactBeams = [Some True, None]"
proof -
  have a: "checkImpactDamage (updateFallingElement impactBody (simulationOf [impactBody]))
       impactBeams portalNodes
     = [tieBeam\<lparr>isBroken := Some True, damageLevel := Some 1\<rparr>]"
    by (simp only: impact_update impact_scan)
  have b: "map elementId (fallingElements
         (updateCollapseSimulation clock0 draws0 (simulationOf [impactBody]) impactBeams portalNodes))
       = [''BEAM_1'']"
    by (simp add: impact_step) (simp add: impactBody_def)
  have c: "structuralModel (collapseTick clock0 draws0 impactState)
        = Some (modelOf portalNodes impactBeams)"
    by (simp add: collapseTick_def impactState_def simulationOf_fields)
  have d: "map beam_id impactBeams = [''BEAM_1'', ''TIE_1'']"
    by (simp add: impactBeams_def tieBeam_def beamOf_def)
  have e: "map isBroken impactBeams = [Some True, None]"
    by (simp add: impactBeams_def tieBeam_def beamOf_def)
  from a b c d e show ?thesis by blast
qed

section \<open>Collisions between bodies\<close>

text \<open>
  What \<^verbatim>\<open>checkCollisions\<close> does emit: an event for every other body, by id, within the
  radius of the updated body, with the impact force of \<^verbatim>\<open>calculateImpactForce\<close>.
\<close>

lemma checkCollisions_emits:
  "other \<in> set others \<Longrightarrow> elementId element \<noteq> elementId other
     \<Longrightarrow> distance (currentPosition element) (currentPosition other) < collisionRadius
     \<Longrightarrow> \<not> hasCollided element
     \<Longrightarrow> \<exists>event \<in> set (checkCollisions clock element others).
           ce_elementId event = elementId element \<and> collidedWith event = elementId other
           \<and> impactForce event = calculateImpactForce element other"
  by (induction others arbitrary: clock) auto

text \<open>
  No path writes \<open>hasCollided\<close>: bodies are created with the flag false and a step
  leaves it false.
\<close>

lemma updateFallingElement_hasCollided:
  "hasCollided (updateFallingElement element simulation) = hasCollided element"
  by (simp add: updateFallingElement_def split: prod.splits)

lemma addNewFallingElements_hasCollided:
  "list_all (\<lambda>e. \<not> hasCollided e) (addNewFallingElements rnd events bs ns)"
  by (induction events arbitrary: rnd) (simp_all split: option.splits)

lemma updateElements_hasCollided:
  "list_all (\<lambda>e. \<not> hasCollided e) els
     \<Longrightarrow> list_all (\<lambda>e. \<not> hasCollided e) (fst (updateElements clock simulation bs ns els))"
  by (induction els arbitrary: clock)
     (simp_all add: Let_def split_beta updateFallingElement_hasCollided)

lemma updateCollapseSimulation_hasCollided:
  assumes "list_all (\<lambda>e. \<not> hasCollided e) (fallingElements simulation)"
  shows "list_all (\<lambda>e. \<not> hasCollided e)
           (fallingElements (updateCollapseSimulation clock rnd simulation bs ns))"
proof (cases "isActive simulation")
  case False
  with assms show ?thesis by (simp add: updateCollapseSimulation_def)
next
  case True
  obtain updated events
    where u: "updateElements clock simulation bs ns (fallingElements simulation) = (updated, events)"
    by (cases "updateElements clock simulation bs ns (fallingElements simulation)") auto
  from updateElements_hasCollided [OF assms, of clock simulation bs ns] u
  have "list_all (\<lambda>e. \<not> hasCollided e) updated" by simp
  with True u show ?thesis
    by (simp add: updateCollapseSimulation_def Let_def addNewFallingElements_hasCollided)
qed

lemma bodyA_velocity:
  "newVelocity bodyA (simulationOf els) = (0, - (621/625), 0)"
proof -
  have speed: "speedOf (0, - 1, 0) = 1"
    by (rule speedOf_eval) simp_all
  show ?thesis
    by (simp add: newVelocity_def Let_def bodyA_def simulationOf_fields GRAVITY_def
        TIME_STEP_def AIR_RESISTANCE_def speed)
qed

lemma bodyB_velocity:
  "newVelocity bodyB (simulationOf els) = (0, - (621/625), 0)"
proof -
  have speed: "speedOf (0, - 1, 0) = 1"
    by (rule speedOf_eval) simp_all
  show ?thesis
    by (simp add: newVelocity_def Let_def bodyB_def simulationOf_fields GRAVITY_def
        TIME_STEP_def AIR_RESISTANCE_def speed)
qed

lemma bodyA_update:
  "updateFallingElement bodyA (simulationOf els)
   = bodyA\<lparr>currentPosition := (0, 389383/78125, 0), velocity := (0, - (621/625), 0)\<rparr>"
  by (simp add: updateFallingElement_def newPosition_def bodyA_velocity simulationOf_fields)
     (simp add: bodyA_def simulationOf_fields TIME_STEP_def GROUND_LEVEL_def)

lemma bodyB_update:
  "updateFallingElement bodyB (simulationOf els)
   = bodyB\<lparr>currentPosition := (3/10, 389383/78125, 0), velocity := (0, - (621/625), 0)\<rparr>"
  by (simp add: updateFallingElement_def newPosition_def bodyB_velocity simulationOf_fields)
     (simp add: bodyB_def simulationOf_fields TIME_STEP_def GROUND_LEVEL_def)

lemma bodyA_collisions:
  "checkCollisions clock (bodyA\<lparr>currentPosition := (0, 389383/78125, 0), velocity := (0, - (621/625), 0)\<rparr>)
     [bodyA, bodyB]
   = [\<lparr>ce_elementId = ''BEAM_1'', collidedWith = ''BEAM_2'', impactForce = 341056/78125,
       ce_timestamp = clock 0, ce_position = (0, 389383/78125, 0)\<rparr>]"
  by (simp add: bodyA_def bodyB_def distance_less_radius calculateImpactForce_def
      power2_eq_square)

lemma bodyB_collisions:
  "checkCollisions clock (bodyB\<lparr>currentPosition := (3/10, 389383/78125, 0), velocity := (0, - (621/625), 0)\<rparr>)
     [bodyA, bodyB]
   = [\<lparr>ce_elementId = ''BEAM_2'', collidedWith = ''BEAM_1'', impactForce = 341056/78125,
       ce_timestamp = clock 0, ce_position = (3/10, 389383/78125, 0)\<rparr>]"
  by (simp add: bodyA_def bodyB_def distance_less_radius calculateImpactForce_def
      power2_eq_square)

lemma colliding_step:
  "updateCollapseSimulation clock0 draws0 (simulationOf [bodyA, bodyB]) [] []
   = (simulationOf [bodyA, bodyB])
       \<lparr>fallingElements :=
          [bodyA\<lparr>currentPosition := (0, 389383/78125, 0), velocity := (0, - (621/625), 0)\<rparr>,
           bodyB\<lparr>currentPosition := (3/10, 389383/78125, 0), velocity := (0, - (621/625), 0)\<rparr>],
        collisionEvents :=
          [\<lparr>ce_elementId = ''BEAM_1'', collidedWith = ''BEAM_2'', impactForce = 341056/78125,
            ce_timestamp = 1000, ce_position = (0, 389383/78125, 0)\<rparr>,
           \<lparr>ce_elementId = ''BEAM_2'', collidedWith = ''BEAM_1'', impactForce = 341056/78125,
            ce_timestamp = 1016, ce_position = (3/10, 389383/78125, 0)\<rparr>],
        isActive := True, sim_timestamp := 1032\<rparr>"
  by (simp add: updateCollapseSimulation_def Let_def bodyA_update bodyB_update bodyA_collisions
        bodyB_collisions simulationOf_fields del: checkCollisions.simps)
     (simp add: stillMoving_def clock0_def advance_def bodyA_def bodyB_def)

text \<open>
  C8 against the code. Two bodies 30 cm apart: the step emits one event for each of
  them against the other, each with \<open>0.5 \<cdot> (80 + 80) \<cdot> 0.2336\<^sup>2 = 4.3655\<close> as impact
  force, and both bodies leave the step with \<open>hasCollided = false\<close>.
\<close>

theorem collision_flag_never_set:
  "map ce_elementId (collisionEvents
       (updateCollapseSimulation clock0 draws0 (simulationOf [bodyA, bodyB]) [] []))
     = [''BEAM_1'', ''BEAM_2'']
   \<and> map collidedWith (collisionEvents
       (updateCollapseSimulation clock0 draws0 (simulationOf [bodyA, bodyB]) [] []))
     = [''BEAM_2'', ''BEAM_1'']
   \<and> map impactForce (collisionEvents
       (updateCollapseSimulation clock0 draws0 (simulationOf [bodyA, bodyB]) [] []))
     = [341056/78125, 341056/78125]
   \<and> map hasCollided (fallingElements
       (updateCollapseSimulation clock0 draws0 (simulationOf [bodyA, bodyB]) [] []))
     = [False, False]"
  by (simp add: colliding_step) (simp add: bodyA_def bodyB_def)

section \<open>Damage under the earthquake effect\<close>

subsection \<open>Records filled by assignment\<close>








subsection \<open>Dispatching beam actions\<close>

lemma reducer_beamwise:
  assumes "beamwise action" and "structuralModel state = Some model"
  shows "structuralModel (simulatorReducer state action)
         = Some (model\<lparr>beams := map (applyToBeam action) (beams model)\<rparr>)"
proof (cases action)
  case (ADD_SIMULATION_RESULT payload)
  have "map (applyToBeam (ADD_SIMULATION_RESULT payload)) (beams model) = beams model"
    by (induction "beams model") (simp_all add: map_idI)
  with ADD_SIMULATION_RESULT assms show ?thesis by simp
qed (use assms in simp_all)

lemma foldl_reducer_beamwise:
  "list_all beamwise actions \<Longrightarrow> structuralModel state = Some model
     \<Longrightarrow> structuralModel (foldl simulatorReducer state actions)
         = Some (model\<lparr>beams := map (applyAll actions) (beams model)\<rparr>)"
proof (induction actions arbitrary: state model)
  case Nil
  then show ?case by (simp add: applyAll_def)
next
  case (Cons action rest)
  from Cons.prems have a: "beamwise action" and r: "list_all beamwise rest" by simp_all
  from reducer_beamwise [OF a Cons.prems(2)]
  have "structuralModel (simulatorReducer state action)
        = Some (model\<lparr>beams := map (applyToBeam action) (beams model)\<rparr>)" .
  from Cons.IH [OF r this] show ?case by (simp add: comp_def applyAll_def)
qed


lemma beamDamageActions_shape:
  "beamDamageActions model (k, stress) = []
   \<or> (\<exists>beam material.
         find (\<lambda>b. beam_id b = k) (beams model) = Some beam
         \<and> materials model (beam_material beam) = Some material
         \<and> beamDamageActions model (k, stress)
             = [UPDATE_BEAM_DAMAGE k (newDamage beam material stress)
                  (newIsBroken beam material stress),
                UPDATE_BEAM_PROPERTIES k (\<lambda>b. b\<lparr>currentStress := Some stress\<rparr>)])"
  by (simp add: beamDamageActions_def split: option.splits)

lemma beamDamageActions_beamwise: "list_all beamwise (beamDamageActions model entry)"
  using beamDamageActions_shape [of model "fst entry" "snd entry"] by auto






subsection \<open>One firing of the earthquake interval\<close>


lemma earthquakeTick_model:
  assumes "isSimulating state" and "structuralModel state = Some model"
  shows "structuralModel (earthquakeTick clock rnd state)
         = Some (model\<lparr>beams :=
             map (applyAll (concat (map (beamDamageActions model)
                    (beamStresses (simulateEarthquake clock rnd model (earthquakeConfig state))))))
                 (beams model)\<rparr>)"
proof -
  let ?result = "simulateEarthquake clock rnd model (earthquakeConfig state)"
  let ?actions = "concat (map (beamDamageActions model) (beamStresses ?result))"
  have "list_all beamwise (?actions @ [ADD_SIMULATION_RESULT ?result])"
    by (simp add: list_all_iff beamDamageActions_beamwise [unfolded list_all_iff])
  from foldl_reducer_beamwise [OF this assms(2)]
  have "structuralModel (foldl simulatorReducer state (?actions @ [ADD_SIMULATION_RESULT ?result]))
        = Some (model\<lparr>beams := map (applyAll (?actions @ [ADD_SIMULATION_RESULT ?result])) (beams model)\<rparr>)" .
  moreover have "applyAll (?actions @ [ADD_SIMULATION_RESULT ?result]) = applyAll ?actions"
    by (rule ext) (simp add: applyAll_def)
  ultimately show ?thesis
    using assms by (simp add: earthquakeTick_def Let_def)
qed


lemma earthquakeTick_materials:
  "materialsOf (earthquakeTick clock rnd state) = materialsOf state"
proof (cases "isSimulating state")
  case False
  then show ?thesis by (simp add: earthquakeTick_def)
next
  case True
  show ?thesis
  proof (cases "structuralModel state")
    case None
    then show ?thesis by (simp add: earthquakeTick_def)
  next
    case (Some model)
    from earthquakeTick_model [OF True Some] Some show ?thesis
      by (simp add: materialsOf_def)
  qed
qed


subsection \<open>Damage over a run\<close>







lemma materialsOf_config: "materialsOf (state\<lparr>earthquakeConfig := config\<rparr>) = materialsOf state"
  by (simp add: materialsOf_def)




subsection \<open>The run on the portal frame\<close>




lemma runTicks_current:
  "runTicks [(clock, rnd, earthquakeConfig state)] state = earthquakeTick clock rnd state"
  by simp










end
